theory Spec2Isabelle
  imports Complex_Main
begin

section \<open>Values, errors and the object store\<close>

text \<open>
  The plugin (\<^verbatim>\<open>prosail.py\<close>) is glue between a host plotting application and an
  external simulation function. It performs no arithmetic of its own: numbers are read
  from widgets or written as literals and handed on unchanged. They are modelled as
  \<^typ>\<open>real\<close>, so the Python literals \<^verbatim>\<open>40\<close> and \<^verbatim>\<open>40.0\<close> denote the same
  value, as they do under Python's \<^verbatim>\<open>==\<close>.
\<close>

datatype pyval = Num real | ModuleAttr string string

text \<open>The categorical constant \<^verbatim>\<open>pyprosail.Planophile\<close>, passed on as it is.\<close>

definition Planophile :: pyval where
  "Planophile = ModuleAttr ''pyprosail'' ''Planophile''"

text \<open>
  Exceptions are values. \<open>AttributeError\<close> and \<open>KeyError\<close> are raised by Python itself
  on a missing attribute or dictionary key, \<open>IndexError\<close> by a column slice beyond the
  table's width, and \<open>ExternalError\<close> stands for whatever the simulation raises.
\<close>

datatype error = AttributeError string | KeyError string | IndexError | ExternalError string

text \<open>
  The table returned by the simulation: a two-dimensional array with a column count
  (which exists also when there are no rows) and its rows.
\<close>

record ndarray =
  ncols :: nat
  rows :: "real list list"

text \<open>The slice \<^verbatim>\<open>res[:,j]\<close>; a column index beyond the width raises.\<close>

definition column :: "ndarray \<Rightarrow> nat \<Rightarrow> error + real list" where
  "column a j = (if j < ncols a then Inr (map (\<lambda>r. r ! j) (rows a)) else Inl IndexError)"

type_synonym ref = nat

record series_obj =
  series_name :: string
  xdata :: "real list"
  ydata :: "real list"
  control_panels :: "ref list"

text \<open>
  A \<^verbatim>\<open>FloatSpin\<close> widget with the constructor arguments the plugin gives it
  (\<open>val\<close> is the source's \<^verbatim>\<open>value\<close>).
\<close>

record floatspin =
  wx_id :: nat
  min_val :: real
  max_val :: real
  increment :: real
  val :: real
  fmt :: string
  digits :: nat

text \<open>A bound method of a control panel, as it is handed to the event binder.\<close>

datatype control_method = Add_slider | Setup | Update_plot

type_synonym handler = "control_method \<times> ref"

datatype sizer_item = StaticText nat string | FloatSpinItem nat

text \<open>
  A \<^verbatim>\<open>ProSAILControl\<close> object. \<open>sliders = None\<close> is the object without the attribute
  \<^verbatim>\<open>sliders\<close>: only \<^verbatim>\<open>setup\<close> creates it.
\<close>

record control_obj =
  panel_name :: string
  series :: ref
  sliders :: "(string \<rightharpoonup> floatspin) option"
  parent :: "nat option"
  sizer_items :: "sizer_item list"
  bindings :: "(nat \<times> handler) list"

record plugin =
  plugin_id :: ref
  plugin_name :: string
  series_type :: string
  menu_entry :: "string list"
  menu_tooltip :: string

text \<open>What the plugin asks of the simulation and of the series, in the order asked.\<close>

datatype event =
    RunCalled "pyval list"
  | SetXYData ref "real list" "real list"
  | SeriesUpdate ref

text \<open>
  The process state: the series and control panel objects by reference (a control panel
  refers to its series and a series to its panels, so the objects are shared), the
  counters that hand out fresh references and widget ids, the calls made so far, the
  host's plugin registry and the interpreter's table of loaded modules.
\<close>

record world =
  series_objs :: "ref \<Rightarrow> series_obj"
  control_objs :: "ref \<Rightarrow> control_obj"
  next_ref :: ref
  next_id :: nat
  log :: "event list"
  registry :: "plugin list"
  sys_modules :: "string list"

section \<open>Computations that change the state and may raise\<close>

text \<open>
  A Python statement sequence: each step changes the state and either yields a value or
  raises. A raise ends the sequence; what was changed before it stays changed.
\<close>

type_synonym 'a prog = "world \<Rightarrow> (error + 'a) \<times> world"

definition return :: "'a \<Rightarrow> 'a prog" where
  "return a w = (Inr a, w)"

definition raise :: "error \<Rightarrow> 'a prog" where
  "raise e w = (Inl e, w)"

definition bind :: "'a prog \<Rightarrow> ('a \<Rightarrow> 'b prog) \<Rightarrow> 'b prog" where
  "bind m f w = (case m w of (Inl e, w') \<Rightarrow> (Inl e, w') | (Inr a, w') \<Rightarrow> f a w')"

definition lift :: "error + 'a \<Rightarrow> 'a prog" where
  "lift r w = (r, w)"

section \<open>The host and the simulation, as far as the plugin uses them\<close>

text \<open>
  The simulation \<^verbatim>\<open>pyprosail.run\<close> is external: it is a parameter \<open>run\<close>, a function
  from the positional argument tuple to a table or an exception. Each call is recorded.
\<close>

definition pyprosail_run :: "(pyval list \<Rightarrow> error + ndarray) \<Rightarrow> pyval list \<Rightarrow> ndarray prog" where
  "pyprosail_run run args w = (run args, w\<lparr>log := log w @ [RunCalled args]\<rparr>)"

text \<open>
  Modelled from the spec: the host's \<^verbatim>\<open>XYDataSeries\<close> base class is not part of this
  repository. Per the spec the series adapter holds the current x/y arrays, has a method
  that replaces both, and a method that signals the host to redraw; no validation of the
  arrays is performed.
\<close>

definition XYDataSeries_init :: "string \<Rightarrow> real list \<Rightarrow> real list \<Rightarrow> ref prog" where
  "XYDataSeries_init name xs ys w =
     (Inr (next_ref w),
      w\<lparr>series_objs := (series_objs w)(next_ref w :=
           \<lparr>series_name = name, xdata = xs, ydata = ys, control_panels = []\<rparr>),
        next_ref := Suc (next_ref w)\<rparr>)"

definition add_control_panel :: "ref \<Rightarrow> ref \<Rightarrow> unit prog" where
  "add_control_panel s c w =
     (Inr (),
      w\<lparr>series_objs := (series_objs w)(s :=
           (series_objs w s)\<lparr>control_panels := control_panels (series_objs w s) @ [c]\<rparr>)\<rparr>)"

definition set_xy_data :: "ref \<Rightarrow> real list \<Rightarrow> real list \<Rightarrow> unit prog" where
  "set_xy_data s xs ys w =
     (Inr (),
      w\<lparr>series_objs := (series_objs w)(s := (series_objs w s)\<lparr>xdata := xs, ydata := ys\<rparr>),
        log := log w @ [SetXYData s xs ys]\<rparr>)"

definition XYDataSeries_update :: "ref \<Rightarrow> unit prog" where
  "XYDataSeries_update s w = (Inr (), w\<lparr>log := log w @ [SeriesUpdate s]\<rparr>)"

text \<open>
  Modelled from the spec: the host's \<^verbatim>\<open>AvoPlotControlPanelBase\<close> and the widget
  toolkit are not part of this repository. The base constructor stores the tab name, the
  base \<^verbatim>\<open>setup\<close> attaches the panel to its parent, \<^verbatim>\<open>Add\<close> appends to the panel's
  sizer, a widget constructor yields a widget with a fresh id and the arguments given,
  and the event binder records the handler for a widget id.
\<close>

definition ControlPanelBase_init :: "string \<Rightarrow> ref prog" where
  "ControlPanelBase_init name w =
     (Inr (next_ref w),
      w\<lparr>control_objs := (control_objs w)(next_ref w :=
           \<lparr>panel_name = name, series = 0, sliders = None, parent = None,
            sizer_items = [], bindings = []\<rparr>),
        next_ref := Suc (next_ref w)\<rparr>)"

definition ControlPanelBase_setup :: "ref \<Rightarrow> nat \<Rightarrow> unit prog" where
  "ControlPanelBase_setup self p w =
     (Inr (), w\<lparr>control_objs := (control_objs w)(self :=
                  (control_objs w self)\<lparr>parent := Some p\<rparr>)\<rparr>)"

definition panel_Add :: "ref \<Rightarrow> sizer_item \<Rightarrow> unit prog" where
  "panel_Add self item w =
     (Inr (), w\<lparr>control_objs := (control_objs w)(self :=
                  (control_objs w self)\<lparr>sizer_items := sizer_items (control_objs w self) @ [item]\<rparr>)\<rparr>)"

definition wx_StaticText :: "string \<Rightarrow> sizer_item prog" where
  "wx_StaticText caption w = (Inr (StaticText (next_id w) caption), w\<lparr>next_id := Suc (next_id w)\<rparr>)"

definition FloatSpin :: "real \<Rightarrow> real \<Rightarrow> real \<Rightarrow> real \<Rightarrow> floatspin prog" where
  "FloatSpin minval maxval inc v w =
     (Inr \<lparr>wx_id = next_id w, min_val = minval, max_val = maxval, increment = inc,
           val = v, fmt = [], digits = 0\<rparr>,
      w\<lparr>next_id := Suc (next_id w)\<rparr>)"

definition EVT_FLOATSPIN :: "ref \<Rightarrow> nat \<Rightarrow> handler \<Rightarrow> unit prog" where
  "EVT_FLOATSPIN self i h w =
     (Inr (), w\<lparr>control_objs := (control_objs w)(self :=
                  (control_objs w self)\<lparr>bindings := bindings (control_objs w self) @ [(i, h)]\<rparr>)\<rparr>)"

section \<open>ProSAILControl\<close>

text \<open>
  \<^verbatim>\<open>__init__(self, series)\<close>: the base constructor, then \<^verbatim>\<open>self.series = series\<close>.
  No \<^verbatim>\<open>sliders\<close> attribute is created here.
\<close>

definition ProSAILControl_init :: "ref \<Rightarrow> ref prog" where
  "ProSAILControl_init s =
     bind (ControlPanelBase_init ''ProSAIL Parameters'') (\<lambda>self.
     bind (\<lambda>w. (Inr (), w\<lparr>control_objs := (control_objs w)(self :=
                  (control_objs w self)\<lparr>series := s\<rparr>)\<rparr>)) (\<lambda>_.
     return self))"

text \<open>Reading the attribute \<^verbatim>\<open>self.sliders\<close>, and the dictionary lookup on it.\<close>

definition get_sliders :: "ref \<Rightarrow> (string \<rightharpoonup> floatspin) prog" where
  "get_sliders self w =
     (case sliders (control_objs w self) of
        None \<Rightarrow> (Inl (AttributeError ''sliders''), w)
      | Some d \<Rightarrow> (Inr d, w))"

definition sliders_getitem :: "ref \<Rightarrow> string \<Rightarrow> floatspin prog" where
  "sliders_getitem self name =
     bind (get_sliders self) (\<lambda>d.
       case d name of None \<Rightarrow> raise (KeyError name) | Some fs \<Rightarrow> return fs)"

text \<open>\<^verbatim>\<open>self.sliders[name] = slider_ref\<close>: the attribute is read, then the entry stored.\<close>

definition sliders_setitem :: "ref \<Rightarrow> string \<Rightarrow> floatspin \<Rightarrow> unit prog" where
  "sliders_setitem self name fs =
     bind (get_sliders self) (\<lambda>d w.
       (Inr (), w\<lparr>control_objs := (control_objs w)(self :=
                   (control_objs w self)\<lparr>sliders := Some (d(name \<mapsto> fs))\<rparr>)\<rparr>))"

definition add_slider ::
  "ref \<Rightarrow> string \<Rightarrow> string \<Rightarrow> real \<Rightarrow> real \<Rightarrow> real \<Rightarrow> real \<Rightarrow> handler \<Rightarrow> unit prog" where
  "add_slider self name caption defaultval minval maxval inc h =
     bind (wx_StaticText caption) (\<lambda>label.
     bind (panel_Add self label) (\<lambda>_.
     bind (FloatSpin minval maxval inc defaultval) (\<lambda>slider_ref.
     bind (sliders_setitem self name (slider_ref\<lparr>fmt := ''%f'', digits := 2\<rparr>)) (\<lambda>_.
     bind (sliders_getitem self name) (\<lambda>fs.
     bind (panel_Add self (FloatSpinItem (wx_id fs))) (\<lambda>_.
     bind (sliders_getitem self name) (\<lambda>fs'.
     EVT_FLOATSPIN self (wx_id fs') h)))))))"

text \<open>
  \<^verbatim>\<open>setup(self, parent)\<close> (\<open>setup\<close> alone is a reserved word here): the base class's setup,
  a new empty \<^verbatim>\<open>sliders\<close> dictionary, and the four sliders.
\<close>

definition ProSAILControl_setup :: "ref \<Rightarrow> nat \<Rightarrow> unit prog" where
  "ProSAILControl_setup self p =
     bind (ControlPanelBase_setup self p) (\<lambda>_.
     bind (\<lambda>w. (Inr (), w\<lparr>control_objs := (control_objs w)(self :=
                  (control_objs w self)\<lparr>sliders := Some Map.empty\<rparr>)\<rparr>)) (\<lambda>_.
     bind (add_slider self ''EWT'' ''Equivalent Water Thickness (cm)''
             0.1 0 1 0.01 (Update_plot, self)) (\<lambda>_.
     bind (add_slider self ''Chloro'' ''Chlorophyll content (ug per cm^2)''
             40 0 100 1 (Update_plot, self)) (\<lambda>_.
     bind (add_slider self ''Carot'' ''Carotenoid content (ug per cm^2)''
             8 0 100 1 (Update_plot, self)) (\<lambda>_.
     add_slider self ''N'' ''Structure Coefficient''
             1.5 0 3 0.1 (Update_plot, self))))))"

text \<open>\<^verbatim>\<open>self.sliders[name].GetValue()\<close>.\<close>

definition slider_GetValue :: "ref \<Rightarrow> string \<Rightarrow> real prog" where
  "slider_GetValue self name = bind (sliders_getitem self name) (\<lambda>fs. return (val fs))"

text \<open>The positional arguments of the call in \<^verbatim>\<open>update_plot\<close>, as written there.\<close>

definition update_plot_args :: "real \<Rightarrow> real \<Rightarrow> real \<Rightarrow> real \<Rightarrow> pyval list" where
  "update_plot_args N chloro carot ewt =
     [Num N, Num chloro, Num carot, Num 0, Num ewt, Num 0.009, Num 1, Num 3, Num 0.01,
      Num 30, Num 0, Num 10, Num 0, Planophile]"

text \<open>
  The event handler. The event \<open>evnt\<close> (a change event, carrying the id of the widget
  that changed) is not looked at.
\<close>

datatype wx_event = FloatSpinEvent nat

definition update_plot :: "(pyval list \<Rightarrow> error + ndarray) \<Rightarrow> ref \<Rightarrow> wx_event \<Rightarrow> unit prog" where
  "update_plot run self evnt =
     bind (slider_GetValue self ''EWT'') (\<lambda>ewt.
     bind (slider_GetValue self ''Chloro'') (\<lambda>chloro.
     bind (slider_GetValue self ''Carot'') (\<lambda>carot.
     bind (slider_GetValue self ''N'') (\<lambda>N.
     bind (pyprosail_run run (update_plot_args N chloro carot ewt)) (\<lambda>res.
     bind (lift (column res 0)) (\<lambda>xs.
     bind (lift (column res 1)) (\<lambda>ys.
     bind (\<lambda>w. set_xy_data (series (control_objs w self)) xs ys w) (\<lambda>_.
     (\<lambda>w. XYDataSeries_update (series (control_objs w self)) w)))))))))"

section \<open>ProSAILSeries\<close>

text \<open>
  \<^verbatim>\<open>__init__\<close>: the base constructor with the arguments given, then a new control
  panel for this series is attached to it.
\<close>

definition ProSAILSeries_init :: "string \<Rightarrow> real list \<Rightarrow> real list \<Rightarrow> ref prog" where
  "ProSAILSeries_init name xs ys =
     bind (XYDataSeries_init name xs ys) (\<lambda>self.
     bind (ProSAILControl_init self) (\<lambda>c.
     bind (add_control_panel self c) (\<lambda>_.
     return self)))"

section \<open>ProsailPlugin and the module body\<close>

text \<open>
  \<^verbatim>\<open>__init__\<close>: a new plugin object named \<^verbatim>\<open>PyProSAIL\<close> for the series class, with
  its menu entry.
\<close>

definition ProsailPlugin_init :: "plugin prog" where
  "ProsailPlugin_init w =
     (Inr \<lparr>plugin_id = next_ref w, plugin_name = ''PyProSAIL'', series_type = ''ProSAILSeries'',
           menu_entry = [''Optical RS'', ''PyProSAIL''],
           menu_tooltip = ''Plot outputs from the PyProSAIL vegetation reflectance model''\<rparr>,
      w\<lparr>next_ref := Suc (next_ref w)\<rparr>)"

text \<open>The positional arguments of the call in \<^verbatim>\<open>plot_into_subplot\<close>, as written there.\<close>

definition plot_into_subplot_args :: "pyval list" where
  "plot_into_subplot_args =
     [Num 1.5, Num 40, Num 8, Num 0, Num 0.1, Num 0.009, Num 1, Num 3, Num 0.01,
      Num 30, Num 0, Num 10, Num 0, Planophile]"

text \<open>
  The subplot is the host's object: \<open>add_data_series\<close> is its method, a parameter that
  yields the subplot with the series added or raises.
\<close>

definition plot_into_subplot ::
  "(pyval list \<Rightarrow> error + ndarray) \<Rightarrow> ('sp \<Rightarrow> ref \<Rightarrow> error + 'sp) \<Rightarrow> 'sp \<Rightarrow> (bool \<times> 'sp) prog" where
  "plot_into_subplot run add_data_series subplot =
     bind (pyprosail_run run plot_into_subplot_args) (\<lambda>res.
     bind (lift (column res 0)) (\<lambda>xs.
     bind (lift (column res 1)) (\<lambda>ys.
     bind (ProSAILSeries_init ''ProSAIL Output'' xs ys) (\<lambda>data_series.
     bind (lift (add_data_series subplot data_series)) (\<lambda>subplot'.
     return (True, subplot'))))))"

text \<open>
  Modelled from the spec: the host's plugin registry is not part of this repository;
  \<^verbatim>\<open>plugins.register\<close> takes the plugin instance and records it.
\<close>

definition plugins_register :: "plugin \<Rightarrow> unit prog" where
  "plugins_register p w = (Inr (), w\<lparr>registry := registry w @ [p]\<rparr>)"

text \<open>The one statement of the module body with an effect: \<^verbatim>\<open>plugins.register(ProsailPlugin())\<close>.\<close>

definition module_body :: "unit prog" where
  "module_body = bind ProsailPlugin_init plugins_register"

text \<open>
  Python's \<^verbatim>\<open>import\<close> statement: the body of a module runs when the module is not yet
  in the interpreter's table of loaded modules, and the module is entered there.
\<close>

definition import_prosail :: "unit prog" where
  "import_prosail w =
     (if ''prosail'' \<in> set (sys_modules w) then (Inr (), w)
      else module_body (w\<lparr>sys_modules := ''prosail'' # sys_modules w\<rparr>))"

fun import_repeatedly :: "nat \<Rightarrow> world \<Rightarrow> world" where
  "import_repeatedly 0 w = w"
| "import_repeatedly (Suc n) w = import_repeatedly n (snd (import_prosail w))"

section \<open>Notions used to state the properties\<close>

text \<open>The argument tuples of the simulation calls recorded in a log, oldest first.\<close>

fun run_calls :: "event list \<Rightarrow> pyval list list" where
  "run_calls [] = []"
| "run_calls (RunCalled args # evs) = args # run_calls evs"
| "run_calls (SetXYData s xs ys # evs) = run_calls evs"
| "run_calls (SeriesUpdate s # evs) = run_calls evs"

text \<open>
  A position of the call in \<^verbatim>\<open>update_plot\<close> is fixed when the argument there is the same
  whatever the four sliders hold.
\<close>

definition fixed_positions :: "nat set" where
  "fixed_positions =
     {i. i < 14 \<and> (\<forall>N chloro carot ewt N' chloro' carot' ewt'.
            update_plot_args N chloro carot ewt ! i = update_plot_args N' chloro' carot' ewt' ! i)}"

text \<open>The widget \<^verbatim>\<open>add_slider\<close> stores: the constructor's arguments, format and digits set.\<close>

definition new_floatspin :: "nat \<Rightarrow> real \<Rightarrow> real \<Rightarrow> real \<Rightarrow> real \<Rightarrow> floatspin" where
  "new_floatspin i defaultval minval maxval inc =
     \<lparr>wx_id = i, min_val = minval, max_val = maxval, increment = inc, val = defaultval,
      fmt = ''%f'', digits = 2\<rparr>"

text \<open>The dictionary \<^verbatim>\<open>setup\<close> leaves behind when widget ids are handed out from \<open>i\<close> on.\<close>

definition default_sliders :: "nat \<Rightarrow> (string \<rightharpoonup> floatspin)" where
  "default_sliders i =
     [''EWT'' \<mapsto> new_floatspin (i + 1) 0.1 0 1 0.01,
      ''Chloro'' \<mapsto> new_floatspin (i + 3) 40 0 100 1,
      ''Carot'' \<mapsto> new_floatspin (i + 5) 8 0 100 1,
      ''N'' \<mapsto> new_floatspin (i + 7) 1.5 0 3 0.1]"

text \<open>The state after a successful \<^verbatim>\<open>update_plot\<close>: the series rewritten, three calls logged.\<close>

definition written :: "ref \<Rightarrow> real list \<Rightarrow> real list \<Rightarrow> pyval list \<Rightarrow> world \<Rightarrow> world" where
  "written s xs ys args w =
     w\<lparr>series_objs := (series_objs w)(s := (series_objs w s)\<lparr>xdata := xs, ydata := ys\<rparr>),
       log := log w @ [RunCalled args, SetXYData s xs ys, SeriesUpdate s]\<rparr>"

text \<open>The plugin object \<^verbatim>\<open>ProsailPlugin()\<close> constructs at reference \<open>r\<close>.\<close>

definition prosail_plugin :: "ref \<Rightarrow> plugin" where
  "prosail_plugin r =
     \<lparr>plugin_id = r, plugin_name = ''PyProSAIL'', series_type = ''ProSAILSeries'',
      menu_entry = [''Optical RS'', ''PyProSAIL''],
      menu_tooltip = ''Plot outputs from the PyProSAIL vegetation reflectance model''\<rparr>"

text \<open>
  Modelled from the spec: the widget toolkit, which changes a slider's value when the user
  edits it, is not part of this repository. Per the spec the bounds are enforced there
  (a value out of range is clamped or rejected); the model admits any new value, which
  covers both.
\<close>

definition user_sets_value :: "ref \<Rightarrow> string \<Rightarrow> real \<Rightarrow> world \<Rightarrow> world" where
  "user_sets_value self name v w =
     (case sliders (control_objs w self) of
        None \<Rightarrow> w
      | Some d \<Rightarrow>
          (case d name of
             None \<Rightarrow> w
           | Some fs \<Rightarrow>
               w\<lparr>control_objs := (control_objs w)(self :=
                   (control_objs w self)\<lparr>sliders := Some (d(name \<mapsto> fs\<lparr>val := v\<rparr>))\<rparr>)\<rparr>))"

text \<open>
  The states in which \<^verbatim>\<open>setup\<close> has completed for the panel \<open>self\<close>: the state
  \<^verbatim>\<open>setup\<close> leaves when called on an existing panel (references are handed out in
  increasing order, so an object that exists has a reference below \<open>next_ref\<close>), and
  every state reached from there by anything the module or its user does afterwards, to
  this panel or to any other object: a panel set up (this one again or another), a value
  edited, the handler run, a slider added, a panel, a series or a plugin constructed, the
  plugin invoked, the module body evaluated or the module imported, a series' data
  replaced or its redraw requested.
\<close>

inductive after_setup :: "(pyval list \<Rightarrow> error + ndarray) \<Rightarrow> ref \<Rightarrow> world \<Rightarrow> bool"
  for run :: "pyval list \<Rightarrow> error + ndarray" and self :: ref where
  setup_done:
    "self < next_ref w \<Longrightarrow> after_setup run self (snd (ProSAILControl_setup self p w))"
| panel_set_up:
    "after_setup run self w \<Longrightarrow> after_setup run self (snd (ProSAILControl_setup panel p w))"
| value_edited:
    "after_setup run self w \<Longrightarrow> after_setup run self (user_sets_value panel name v w)"
| event_handled:
    "after_setup run self w \<Longrightarrow> after_setup run self (snd (update_plot run panel evnt w))"
| slider_added:
    "after_setup run self w \<Longrightarrow>
     after_setup run self (snd (add_slider panel name caption defaultval minval maxval inc h w))"
| panel_constructed:
    "after_setup run self w \<Longrightarrow> after_setup run self (snd (ProSAILControl_init s w))"
| series_constructed:
    "after_setup run self w \<Longrightarrow> after_setup run self (snd (ProSAILSeries_init name xs ys w))"
| plugin_invoked:
    "after_setup run self w \<Longrightarrow>
     after_setup run self (snd (plot_into_subplot run add_data_series (subplot :: ref list) w))"
| plugin_constructed:
    "after_setup run self w \<Longrightarrow> after_setup run self (snd (ProsailPlugin_init w))"
| body_evaluated:
    "after_setup run self w \<Longrightarrow> after_setup run self (snd (module_body w))"
| module_imported:
    "after_setup run self w \<Longrightarrow> after_setup run self (snd (import_prosail w))"
| data_replaced:
    "after_setup run self w \<Longrightarrow> after_setup run self (snd (set_xy_data s xs ys w))"
| redraw_requested:
    "after_setup run self w \<Longrightarrow> after_setup run self (snd (XYDataSeries_update s w))"

section \<open>Sample inputs\<close>

text \<open>A process in which nothing has happened yet.\<close>

definition empty_world :: world where
  "empty_world =
     \<lparr>series_objs = (\<lambda>_. \<lparr>series_name = [], xdata = [], ydata = [], control_panels = []\<rparr>),
      control_objs = (\<lambda>_. \<lparr>panel_name = [], series = 0, sliders = None, parent = None,
                             sizer_items = [], bindings = []\<rparr>),
      next_ref = 0, next_id = 0, log = [], registry = [], sys_modules = []\<rparr>"

text \<open>
  A stand-in simulation returning two rows of (wavelength, reflectance) that depend on the
  first argument, and one that raises on every input.
\<close>

definition sample_run :: "pyval list \<Rightarrow> error + ndarray" where
  "sample_run args =
     (case args of
        Num n # _ \<Rightarrow> Inr \<lparr>ncols = 2, rows = [[400, n / 10], [401, n / 5]]\<rparr>
      | _ \<Rightarrow> Inl (ExternalError ''TypeError''))"

definition failing_run :: "pyval list \<Rightarrow> error + ndarray" where
  "failing_run args = Inl (ExternalError ''ValueError'')"

text \<open>A subplot as the list of its series; adding a series appends it.\<close>

definition sample_add_data_series :: "ref list \<Rightarrow> ref \<Rightarrow> error + ref list" where
  "sample_add_data_series subplot s = Inr (subplot @ [s])"

text \<open>
  The state after the plugin was invoked once on an empty subplot and the host set the
  new series' control panel up: the series is object 0, its panel object 1.
\<close>

definition plotted_world :: world where
  "plotted_world =
     snd (ProSAILControl_setup 1 0
       (snd (plot_into_subplot sample_run sample_add_data_series [] empty_world)))"

text \<open>
  The sample state after the user moved \<open>N\<close> to 2, the handler ran, and the user moved
  \<open>N\<close> back to 1.5: the sliders hold their defaults again, the series holds the data
  computed for \<open>N = 2\<close>.
\<close>

definition stale_world :: world where
  "stale_world =
     user_sets_value (Suc 0) ''N'' 1.5
       (snd (update_plot sample_run (Suc 0) (FloatSpinEvent 7)
          (user_sets_value (Suc 0) ''N'' 2 plotted_world)))"


section \<open>Properties\<close>

subsection \<open>What each step does\<close>

lemmas prog_defs = bind_def return_def raise_def lift_def

lemma slider_GetValue_eq:
  "slider_GetValue self name w =
     (case sliders (control_objs w self) of
        None \<Rightarrow> (Inl (AttributeError ''sliders''), w)
      | Some d \<Rightarrow> (case d name of None \<Rightarrow> (Inl (KeyError name), w)
                                | Some fs \<Rightarrow> (Inr (val fs), w)))"
  by (simp add: slider_GetValue_def sliders_getitem_def get_sliders_def prog_defs
           split: option.splits)

lemma slider_GetValue_state: "snd (slider_GetValue self name w) = w"
  by (simp add: slider_GetValue_eq split: option.splits)

text \<open>The part of \<^verbatim>\<open>update_plot\<close> after the four reads.\<close>

lemma update_plot_reads:
  "update_plot run self evnt w =
     (case fst (slider_GetValue self ''EWT'' w) of Inl e \<Rightarrow> (Inl e, w) | Inr ewt \<Rightarrow>
      case fst (slider_GetValue self ''Chloro'' w) of Inl e \<Rightarrow> (Inl e, w) | Inr chloro \<Rightarrow>
      case fst (slider_GetValue self ''Carot'' w) of Inl e \<Rightarrow> (Inl e, w) | Inr carot \<Rightarrow>
      case fst (slider_GetValue self ''N'' w) of Inl e \<Rightarrow> (Inl e, w) | Inr N \<Rightarrow>
      case run (update_plot_args N chloro carot ewt) of
        Inl e \<Rightarrow> (Inl e, w\<lparr>log := log w @ [RunCalled (update_plot_args N chloro carot ewt)]\<rparr>)
      | Inr res \<Rightarrow>
          if 2 \<le> ncols res
          then (Inr (), written (series (control_objs w self))
                  (map (\<lambda>r. r ! 0) (rows res)) (map (\<lambda>r. r ! 1) (rows res))
                  (update_plot_args N chloro carot ewt) w)
          else (Inl IndexError,
                w\<lparr>log := log w @ [RunCalled (update_plot_args N chloro carot ewt)]\<rparr>))"
  by (simp add: update_plot_def slider_GetValue_eq pyprosail_run_def column_def set_xy_data_def
        XYDataSeries_update_def written_def prog_defs split: sum.splits option.splits)

lemma update_plot_with_sliders:
  assumes "sliders (control_objs w self) = Some d"
    and "d ''EWT'' = Some fE" and "d ''Chloro'' = Some fC"
    and "d ''Carot'' = Some fK" and "d ''N'' = Some fN"
  shows "update_plot run self evnt w =
     (case run (update_plot_args (val fN) (val fC) (val fK) (val fE)) of
        Inl e \<Rightarrow> (Inl e, w\<lparr>log := log w @
                    [RunCalled (update_plot_args (val fN) (val fC) (val fK) (val fE))]\<rparr>)
      | Inr res \<Rightarrow>
          if 2 \<le> ncols res
          then (Inr (), written (series (control_objs w self))
                  (map (\<lambda>r. r ! 0) (rows res)) (map (\<lambda>r. r ! 1) (rows res))
                  (update_plot_args (val fN) (val fC) (val fK) (val fE)) w)
          else (Inl IndexError, w\<lparr>log := log w @
                    [RunCalled (update_plot_args (val fN) (val fC) (val fK) (val fE))]\<rparr>))"
  using assms by (simp add: update_plot_reads slider_GetValue_eq)


lemma update_plot_returned:
  assumes "update_plot run self evnt w = (Inr u, w')"
  shows "\<exists>d fE fC fK fN res.
     sliders (control_objs w self) = Some d \<and>
     d ''EWT'' = Some fE \<and> d ''Chloro'' = Some fC \<and> d ''Carot'' = Some fK \<and> d ''N'' = Some fN \<and>
     run (update_plot_args (val fN) (val fC) (val fK) (val fE)) = Inr res \<and> 2 \<le> ncols res \<and>
     w' = written (series (control_objs w self))
            (map (\<lambda>r. r ! 0) (rows res)) (map (\<lambda>r. r ! 1) (rows res))
            (update_plot_args (val fN) (val fC) (val fK) (val fE)) w"
  using assms
  by (auto simp add: update_plot_reads slider_GetValue_eq split: option.splits sum.splits if_splits)

lemma add_slider_with_sliders:
  assumes "sliders (control_objs w self) = Some d"
  shows "add_slider self name caption defaultval minval maxval inc h w =
     (Inr (),
      w\<lparr>control_objs := (control_objs w)(self := (control_objs w self)
           \<lparr>sliders := Some (d(name \<mapsto> new_floatspin (Suc (next_id w)) defaultval minval maxval inc)),
            sizer_items := sizer_items (control_objs w self) @
               [StaticText (next_id w) caption, FloatSpinItem (Suc (next_id w))],
            bindings := bindings (control_objs w self) @ [(Suc (next_id w), h)]\<rparr>),
        next_id := Suc (Suc (next_id w))\<rparr>)"
  using assms
  by (simp add: add_slider_def wx_StaticText_def panel_Add_def FloatSpin_def sliders_setitem_def
        sliders_getitem_def get_sliders_def EVT_FLOATSPIN_def new_floatspin_def prog_defs)

lemma add_slider_without_sliders:
  assumes "sliders (control_objs w self) = None"
  shows "add_slider self name caption defaultval minval maxval inc h w =
     (Inl (AttributeError ''sliders''),
      w\<lparr>control_objs := (control_objs w)(self := (control_objs w self)
           \<lparr>sizer_items := sizer_items (control_objs w self) @ [StaticText (next_id w) caption]\<rparr>),
        next_id := Suc (Suc (next_id w))\<rparr>)"
  using assms
  by (simp add: add_slider_def wx_StaticText_def panel_Add_def FloatSpin_def sliders_setitem_def
        sliders_getitem_def get_sliders_def EVT_FLOATSPIN_def prog_defs)

lemma setup_result:
  "ProSAILControl_setup self p w =
     (Inr (),
      w\<lparr>control_objs := (control_objs w)(self := (control_objs w self)
           \<lparr>parent := Some p,
            sliders := Some (default_sliders (next_id w)),
            sizer_items := sizer_items (control_objs w self) @
               [StaticText (next_id w) ''Equivalent Water Thickness (cm)'',
                FloatSpinItem (next_id w + 1),
                StaticText (next_id w + 2) ''Chlorophyll content (ug per cm^2)'',
                FloatSpinItem (next_id w + 3),
                StaticText (next_id w + 4) ''Carotenoid content (ug per cm^2)'',
                FloatSpinItem (next_id w + 5),
                StaticText (next_id w + 6) ''Structure Coefficient'',
                FloatSpinItem (next_id w + 7)],
            bindings := bindings (control_objs w self) @
               [(next_id w + 1, (Update_plot, self)), (next_id w + 3, (Update_plot, self)),
                (next_id w + 5, (Update_plot, self)), (next_id w + 7, (Update_plot, self))]\<rparr>),
        next_id := next_id w + 8\<rparr>)"
  by (simp add: ProSAILControl_setup_def ControlPanelBase_setup_def bind_def
        add_slider_with_sliders default_sliders_def eval_nat_numeral)

lemma ProSAILControl_init_result:
  "ProSAILControl_init s w =
     (Inr (next_ref w),
      w\<lparr>control_objs := (control_objs w)(next_ref w :=
           \<lparr>panel_name = ''ProSAIL Parameters'', series = s, sliders = None, parent = None,
            sizer_items = [], bindings = []\<rparr>),
        next_ref := Suc (next_ref w)\<rparr>)"
  by (simp add: ProSAILControl_init_def ControlPanelBase_init_def prog_defs)

lemma ProSAILSeries_init_result:
  "ProSAILSeries_init name xs ys w =
     (Inr (next_ref w),
      w\<lparr>series_objs := (series_objs w)(next_ref w :=
           \<lparr>series_name = name, xdata = xs, ydata = ys, control_panels = [Suc (next_ref w)]\<rparr>),
        control_objs := (control_objs w)(Suc (next_ref w) :=
           \<lparr>panel_name = ''ProSAIL Parameters'', series = next_ref w, sliders = None,
            parent = None, sizer_items = [], bindings = []\<rparr>),
        next_ref := Suc (Suc (next_ref w))\<rparr>)"
  by (simp add: ProSAILSeries_init_def XYDataSeries_init_def ProSAILControl_init_result
        add_control_panel_def prog_defs)

lemma plot_into_subplot_result:
  "plot_into_subplot run add_data_series subplot w =
     (case run plot_into_subplot_args of
        Inl e \<Rightarrow> (Inl e, w\<lparr>log := log w @ [RunCalled plot_into_subplot_args]\<rparr>)
      | Inr res \<Rightarrow>
          if 2 \<le> ncols res
          then (case add_data_series subplot (next_ref w) of
                  Inl e \<Rightarrow> Inl e
                | Inr subplot' \<Rightarrow> Inr (True, subplot'),
                snd (ProSAILSeries_init ''ProSAIL Output''
                       (map (\<lambda>r. r ! 0) (rows res)) (map (\<lambda>r. r ! 1) (rows res))
                       (w\<lparr>log := log w @ [RunCalled plot_into_subplot_args]\<rparr>)))
          else (Inl IndexError, w\<lparr>log := log w @ [RunCalled plot_into_subplot_args]\<rparr>))"
  by (simp add: plot_into_subplot_def pyprosail_run_def column_def ProSAILSeries_init_result
        prog_defs split: sum.splits)

lemma module_body_result:
  "module_body w =
     (Inr (), w\<lparr>next_ref := Suc (next_ref w), registry := registry w @ [prosail_plugin (next_ref w)]\<rparr>)"
  by (simp add: module_body_def ProsailPlugin_init_def plugins_register_def prosail_plugin_def
        bind_def)

subsection \<open>The sample state\<close>

lemma run_calls_append: "run_calls (evs @ evs') = run_calls evs @ run_calls evs'"
  by (induction evs rule: run_calls.induct) simp_all

lemma plotted_world_panel:
  "control_objs plotted_world (Suc 0) =
     \<lparr>panel_name = ''ProSAIL Parameters'', series = 0, sliders = Some (default_sliders 0),
      parent = Some 0,
      sizer_items =
        [StaticText 0 ''Equivalent Water Thickness (cm)'', FloatSpinItem 1,
         StaticText 2 ''Chlorophyll content (ug per cm^2)'', FloatSpinItem 3,
         StaticText 4 ''Carotenoid content (ug per cm^2)'', FloatSpinItem 5,
         StaticText 6 ''Structure Coefficient'', FloatSpinItem 7],
      bindings = [(1, (Update_plot, 1)), (3, (Update_plot, 1)), (5, (Update_plot, 1)),
                  (7, (Update_plot, 1))]\<rparr>"
  by (simp add: plotted_world_def plot_into_subplot_result setup_result ProSAILSeries_init_result
        sample_run_def plot_into_subplot_args_def sample_add_data_series_def empty_world_def)

lemma plotted_world_series:
  "series_objs plotted_world 0 =
     \<lparr>series_name = ''ProSAIL Output'', xdata = [400, 401], ydata = [0.15, 0.3],
      control_panels = [1]\<rparr>"
  by (simp add: plotted_world_def plot_into_subplot_result setup_result ProSAILSeries_init_result
        sample_run_def plot_into_subplot_args_def sample_add_data_series_def empty_world_def)

lemma plotted_world_log: "log plotted_world = [RunCalled plot_into_subplot_args]"
  by (simp add: plotted_world_def plot_into_subplot_result setup_result ProSAILSeries_init_result
        sample_run_def plot_into_subplot_args_def sample_add_data_series_def empty_world_def)

lemma default_sliders_lookup:
  "default_sliders i ''EWT'' = Some (new_floatspin (i + 1) 0.1 0 1 0.01)"
  "default_sliders i ''Chloro'' = Some (new_floatspin (i + 3) 40 0 100 1)"
  "default_sliders i ''Carot'' = Some (new_floatspin (i + 5) 8 0 100 1)"
  "default_sliders i ''N'' = Some (new_floatspin (i + 7) 1.5 0 3 0.1)"
  by (simp_all add: default_sliders_def)

subsection \<open>The handler writes the simulation's output into the series\<close>

text \<open>
  Claim C1. Whenever the handler \<^verbatim>\<open>update_plot\<close> returns normally, it has read the four
  sliders, called the simulation once with their values, and the x array of the panel's
  series is column 0 and its y array column 1 of the table that call returned; the
  calls it made are, in this order, the simulation, \<^verbatim>\<open>set_xy_data\<close> with those columns,
  and \<^verbatim>\<open>update\<close>: the redraw comes after the data is written.
\<close>

theorem update_plot_replaces_series_data:
  assumes "update_plot run self evnt w = (Inr (), w')"
  shows "\<exists>N chloro carot ewt res.
     fst (slider_GetValue self ''N'' w) = Inr N \<and>
     fst (slider_GetValue self ''Chloro'' w) = Inr chloro \<and>
     fst (slider_GetValue self ''Carot'' w) = Inr carot \<and>
     fst (slider_GetValue self ''EWT'' w) = Inr ewt \<and>
     run (update_plot_args N chloro carot ewt) = Inr res \<and>
     column res 0 = Inr (xdata (series_objs w' (series (control_objs w' self)))) \<and>
     column res 1 = Inr (ydata (series_objs w' (series (control_objs w' self)))) \<and>
     log w' = log w @
       [RunCalled (update_plot_args N chloro carot ewt),
        SetXYData (series (control_objs w' self))
          (xdata (series_objs w' (series (control_objs w' self))))
          (ydata (series_objs w' (series (control_objs w' self)))),
        SeriesUpdate (series (control_objs w' self))]"
proof -
  from update_plot_returned [OF assms]
  obtain d fE fC fK fN res where
    d: "sliders (control_objs w self) = Some d" "d ''EWT'' = Some fE" "d ''Chloro'' = Some fC"
       "d ''Carot'' = Some fK" "d ''N'' = Some fN"
    and res: "run (update_plot_args (val fN) (val fC) (val fK) (val fE)) = Inr res"
       "2 \<le> ncols res"
    and w': "w' = written (series (control_objs w self))
            (map (\<lambda>r. r ! 0) (rows res)) (map (\<lambda>r. r ! 1) (rows res))
            (update_plot_args (val fN) (val fC) (val fK) (val fE)) w"
    by blast
  have reads: "fst (slider_GetValue self ''N'' w) = Inr (val fN)"
    "fst (slider_GetValue self ''Chloro'' w) = Inr (val fC)"
    "fst (slider_GetValue self ''Carot'' w) = Inr (val fK)"
    "fst (slider_GetValue self ''EWT'' w) = Inr (val fE)"
    using d by (simp_all add: slider_GetValue_eq)
  have cols: "column res 0 = Inr (map (\<lambda>r. r ! 0) (rows res))"
    "column res 1 = Inr (map (\<lambda>r. r ! 1) (rows res))"
    using res(2) by (simp_all add: column_def)
  have panel: "control_objs w' = control_objs w"
    by (simp add: w' written_def)
  have data: "xdata (series_objs w' (series (control_objs w self))) = map (\<lambda>r. r ! 0) (rows res)"
    "ydata (series_objs w' (series (control_objs w self))) = map (\<lambda>r. r ! 1) (rows res)"
    by (simp_all add: w' written_def)
  have lg: "log w' = log w @
       [RunCalled (update_plot_args (val fN) (val fC) (val fK) (val fE)),
        SetXYData (series (control_objs w self)) (map (\<lambda>r. r ! 0) (rows res))
          (map (\<lambda>r. r ! 1) (rows res)),
        SeriesUpdate (series (control_objs w self))]"
    by (simp add: w' written_def)
  show ?thesis
    using reads res(1) cols lg by (simp add: panel data)
qed

text \<open>
  After the user sets \<open>N\<close> to 2 on the sample panel, the handler returns and the series
  holds the two columns the sample simulation yields for \<open>N = 2\<close>.
\<close>

theorem update_plot_replaces_series_data_witness:
  "update_plot sample_run (Suc 0) (FloatSpinEvent 3) (user_sets_value (Suc 0) ''N'' 2 plotted_world) =
     (Inr (), snd (update_plot sample_run (Suc 0) (FloatSpinEvent 3)
                    (user_sets_value (Suc 0) ''N'' 2 plotted_world))) \<and>
   xdata (series_objs (snd (update_plot sample_run (Suc 0) (FloatSpinEvent 3)
                    (user_sets_value (Suc 0) ''N'' 2 plotted_world))) 0) = [400, 401] \<and>
   ydata (series_objs (snd (update_plot sample_run (Suc 0) (FloatSpinEvent 3)
                    (user_sets_value (Suc 0) ''N'' 2 plotted_world))) 0) = [0.2, 0.4] \<and>
   (\<exists>res. sample_run (update_plot_args 2 40 8 0.1) = Inr res \<and>
      column res 0 = Inr [400, 401] \<and> column res 1 = Inr [0.2, 0.4])"
proof -
  let ?w = "user_sets_value (Suc 0) ''N'' 2 plotted_world"
  let ?w' = "snd (update_plot sample_run (Suc 0) (FloatSpinEvent 3) ?w)"
  have panel: "control_objs ?w (Suc 0) = (control_objs plotted_world (Suc 0))
      \<lparr>sliders := Some ((default_sliders 0)(''N'' \<mapsto> (new_floatspin 7 1.5 0 3 0.1)\<lparr>val := 2\<rparr>))\<rparr>"
    by (simp add: user_sets_value_def plotted_world_panel default_sliders_lookup)
  have ret: "fst (update_plot sample_run (Suc 0) (FloatSpinEvent 3) ?w) = Inr ()"
    by (simp add: update_plot_reads slider_GetValue_eq panel default_sliders_lookup
          new_floatspin_def update_plot_args_def sample_run_def)
  then have h: "update_plot sample_run (Suc 0) (FloatSpinEvent 3) ?w = (Inr (), ?w')"
    by (simp add: prod_eq_iff)
  have reads: "fst (slider_GetValue (Suc 0) ''N'' ?w) = Inr 2"
    "fst (slider_GetValue (Suc 0) ''Chloro'' ?w) = Inr 40"
    "fst (slider_GetValue (Suc 0) ''Carot'' ?w) = Inr 8"
    "fst (slider_GetValue (Suc 0) ''EWT'' ?w) = Inr 0.1"
    by (simp_all add: slider_GetValue_eq panel default_sliders_lookup new_floatspin_def)
  have ser: "series (control_objs ?w' (Suc 0)) = 0"
    by (simp add: update_plot_reads slider_GetValue_eq panel default_sliders_lookup
          new_floatspin_def update_plot_args_def sample_run_def written_def plotted_world_panel)
  have run: "sample_run (update_plot_args 2 40 8 0.1) =
      Inr \<lparr>ncols = 2, rows = [[400, 0.2], [401, 0.4]]\<rparr>"
    by (simp add: sample_run_def update_plot_args_def)
  from update_plot_replaces_series_data [OF h]
  obtain N chloro carot ewt res where
    vals: "fst (slider_GetValue (Suc 0) ''N'' ?w) = Inr N"
      "fst (slider_GetValue (Suc 0) ''Chloro'' ?w) = Inr chloro"
      "fst (slider_GetValue (Suc 0) ''Carot'' ?w) = Inr carot"
      "fst (slider_GetValue (Suc 0) ''EWT'' ?w) = Inr ewt"
    and res: "sample_run (update_plot_args N chloro carot ewt) = Inr res"
    and cols: "column res 0 = Inr (xdata (series_objs ?w' (series (control_objs ?w' (Suc 0)))))"
      "column res 1 = Inr (ydata (series_objs ?w' (series (control_objs ?w' (Suc 0)))))"
    by blast
  from vals reads have "N = 2" "chloro = 40" "carot = 8" "ewt = 0.1"
    by simp_all
  with res run have res_eq: "res = \<lparr>ncols = 2, rows = [[400, 0.2], [401, 0.4]]\<rparr>"
    by simp
  have "xdata (series_objs ?w' 0) = [400, 401]" "ydata (series_objs ?w' 0) = [0.2, 0.4]"
    using cols by (simp_all add: res_eq ser column_def)
  moreover have "column \<lparr>ncols = 2, rows = [[400, 0.2], [401, 0.4]]\<rparr> 0 = Inr [400, 401]"
    "column \<lparr>ncols = 2, rows = [[400, 0.2], [401, 0.4]]\<rparr> 1 = Inr [0.2, 0.4]"
    by (simp_all add: column_def)
  ultimately show ?thesis
    using h run by simp
qed

subsection \<open>The arguments of the simulation call\<close>

lemma less_14_cases:
  assumes "i < (14::nat)"
  shows "i = 0 \<or> i = 1 \<or> i = 2 \<or> i = 3 \<or> i = 4 \<or> i = 5 \<or> i = 6 \<or> i = 7 \<or>
         i = 8 \<or> i = 9 \<or> i = 10 \<or> i = 11 \<or> i = 12 \<or> i = 13"
  using assms by arith

lemma fixed_positions_eq: "fixed_positions = {3, 5, 6, 7, 8, 9, 10, 11, 12, 13}"
proof (rule set_eqI)
  fix i :: nat
  show "i \<in> fixed_positions \<longleftrightarrow> i \<in> {3, 5, 6, 7, 8, 9, 10, 11, 12, 13}"
  proof
    assume fixed: "i \<in> fixed_positions"
    then have bound: "i < 14"
      and same: "update_plot_args 0 0 0 0 ! i = update_plot_args 1 1 1 1 ! i"
      by (simp_all add: fixed_positions_def)
    have "i = 0 \<Longrightarrow> False" "i = 1 \<Longrightarrow> False" "i = 2 \<Longrightarrow> False" "i = 4 \<Longrightarrow> False"
      using same by (simp_all add: update_plot_args_def)
    with less_14_cases [OF bound] show "i \<in> {3, 5, 6, 7, 8, 9, 10, 11, 12, 13}"
      by blast
  next
    assume "i \<in> {3, 5, 6, 7, 8, 9, 10, 11, 12, 13}"
    then show "i \<in> fixed_positions"
      by (auto simp add: fixed_positions_def update_plot_args_def)
  qed
qed

lemma card_fixed_positions: "card fixed_positions = 10"
  by (simp add: fixed_positions_eq)

lemma update_plot_run_calls:
  assumes "sliders (control_objs w self) = Some d"
    and "d ''EWT'' = Some fE" and "d ''Chloro'' = Some fC"
    and "d ''Carot'' = Some fK" and "d ''N'' = Some fN"
  shows "run_calls (log (snd (update_plot run self evnt w))) =
     run_calls (log w) @ [update_plot_args (val fN) (val fC) (val fK) (val fE)]"
  using assms
  by (simp add: update_plot_with_sliders written_def run_calls_append split: sum.splits)

text \<open>
  Claim C2, as stated, counts eleven fixed constants beside the four slider values, which
  would make fifteen arguments. The call has fourteen, ten of them fixed.
\<close>

theorem eleven_fixed_constants_counterexample:
  "length (update_plot_args 1.5 40 8 0.1) \<noteq> 4 + 11 \<and> card fixed_positions \<noteq> 11"
  by (simp add: card_fixed_positions update_plot_args_def)

text \<open>
  Claim C2, amended. With the four sliders in place, the handler calls the simulation
  once, positionally, with fourteen arguments: the values of \<open>N\<close>, \<open>Chloro\<close>, \<open>Carot\<close> at
  positions 0 to 2 and of \<open>EWT\<close> at position 4, and ten fixed constants at the other
  positions, nine numbers and, last, the selector \<^verbatim>\<open>pyprosail.Planophile\<close>, which is
  the only argument that is not a number.
\<close>

theorem update_plot_call_arguments:
  assumes "sliders (control_objs w self) = Some d"
    and "d ''EWT'' = Some fE" and "d ''Chloro'' = Some fC"
    and "d ''Carot'' = Some fK" and "d ''N'' = Some fN"
  shows "run_calls (log (snd (update_plot run self evnt w))) =
       run_calls (log w) @ [update_plot_args (val fN) (val fC) (val fK) (val fE)] \<and>
     length (update_plot_args (val fN) (val fC) (val fK) (val fE)) = 14 \<and>
     update_plot_args (val fN) (val fC) (val fK) (val fE) ! 0 = Num (val fN) \<and>
     update_plot_args (val fN) (val fC) (val fK) (val fE) ! 1 = Num (val fC) \<and>
     update_plot_args (val fN) (val fC) (val fK) (val fE) ! 2 = Num (val fK) \<and>
     update_plot_args (val fN) (val fC) (val fK) (val fE) ! 4 = Num (val fE) \<and>
     fixed_positions = {3, 5, 6, 7, 8, 9, 10, 11, 12, 13} \<and>
     card fixed_positions = 10 \<and>
     update_plot_args (val fN) (val fC) (val fK) (val fE) ! 13 =
       ModuleAttr ''pyprosail'' ''Planophile'' \<and>
     filter (\<lambda>v. case v of Num r \<Rightarrow> False | ModuleAttr m a \<Rightarrow> True)
       (update_plot_args (val fN) (val fC) (val fK) (val fE)) =
       [ModuleAttr ''pyprosail'' ''Planophile'']"
proof -
  have "filter (\<lambda>v. case v of Num r \<Rightarrow> False | ModuleAttr m a \<Rightarrow> True)
       (update_plot_args (val fN) (val fC) (val fK) (val fE)) =
       [ModuleAttr ''pyprosail'' ''Planophile'']"
    by (simp add: update_plot_args_def Planophile_def)
  moreover have "length (update_plot_args (val fN) (val fC) (val fK) (val fE)) = 14"
    by (simp add: update_plot_args_def)
  ultimately show ?thesis
    using update_plot_run_calls [OF assms, of run evnt]
    by (simp add: update_plot_args_def fixed_positions_eq Planophile_def)
qed

text \<open>
  On the sample panel with its sliders at their defaults, whether or not the simulation
  raises.
\<close>

theorem update_plot_call_arguments_witness:
  "sliders (control_objs plotted_world (Suc 0)) = Some (default_sliders 0) \<and>
   default_sliders 0 ''EWT'' = Some (new_floatspin 1 0.1 0 1 0.01) \<and>
   default_sliders 0 ''Chloro'' = Some (new_floatspin 3 40 0 100 1) \<and>
   default_sliders 0 ''Carot'' = Some (new_floatspin 5 8 0 100 1) \<and>
   default_sliders 0 ''N'' = Some (new_floatspin 7 1.5 0 3 0.1) \<and>
   run_calls (log (snd (update_plot failing_run (Suc 0) (FloatSpinEvent 1) plotted_world))) =
     [plot_into_subplot_args, update_plot_args 1.5 40 8 0.1] \<and>
   length (update_plot_args 1.5 40 8 0.1) = 14 \<and>
   card fixed_positions = 10"
proof -
  have h: "sliders (control_objs plotted_world (Suc 0)) = Some (default_sliders 0)"
    by (simp add: plotted_world_panel)
  have k: "default_sliders 0 ''EWT'' = Some (new_floatspin 1 0.1 0 1 0.01)"
    "default_sliders 0 ''Chloro'' = Some (new_floatspin 3 40 0 100 1)"
    "default_sliders 0 ''Carot'' = Some (new_floatspin 5 8 0 100 1)"
    "default_sliders 0 ''N'' = Some (new_floatspin 7 1.5 0 3 0.1)"
    by (simp_all add: default_sliders_def)
  from update_plot_call_arguments [OF h k, of failing_run "FloatSpinEvent 1"]
  show ?thesis
    using h k by (simp add: new_floatspin_def plotted_world_log)
qed

subsection \<open>The plugin's call and the handler's call at the defaults\<close>

lemma plot_into_subplot_run_calls:
  "run_calls (log (snd (plot_into_subplot run add_data_series subplot w))) =
     run_calls (log w) @ [plot_into_subplot_args]"
  by (simp add: plot_into_subplot_result ProSAILSeries_init_result run_calls_append
        split: sum.splits)

lemma setup_sliders:
  "sliders (control_objs (snd (ProSAILControl_setup self p w)) self) =
     Some (default_sliders (next_id w))"
  by (simp add: setup_result)

lemma setup_log: "log (snd (ProSAILControl_setup self p w)) = log w"
  by (simp add: setup_result)

text \<open>
  Claim C3. The argument tuple \<^verbatim>\<open>plot_into_subplot\<close> passes to the simulation is the
  tuple \<^verbatim>\<open>update_plot\<close> passes when every slider holds its default: right after
  \<^verbatim>\<open>setup\<close> the four sliders read \<open>N = 1.5\<close>, \<open>Chloro = 40\<close>, \<open>Carot = 8\<close>,
  \<open>EWT = 0.1\<close>, the handler then calls the simulation with exactly the tuple of the
  plugin's call, and the two tuples agree at each of the fourteen positions.
\<close>

theorem default_call_is_handler_call_at_defaults:
  "run_calls (log (snd (plot_into_subplot run add_data_series subplot w))) =
     run_calls (log w) @ [plot_into_subplot_args] \<and>
   slider_GetValue self ''N'' (snd (ProSAILControl_setup self p w')) =
     (Inr 1.5, snd (ProSAILControl_setup self p w')) \<and>
   slider_GetValue self ''Chloro'' (snd (ProSAILControl_setup self p w')) =
     (Inr 40, snd (ProSAILControl_setup self p w')) \<and>
   slider_GetValue self ''Carot'' (snd (ProSAILControl_setup self p w')) =
     (Inr 8, snd (ProSAILControl_setup self p w')) \<and>
   slider_GetValue self ''EWT'' (snd (ProSAILControl_setup self p w')) =
     (Inr 0.1, snd (ProSAILControl_setup self p w')) \<and>
   run_calls (log (snd (update_plot run self evnt (snd (ProSAILControl_setup self p w'))))) =
     run_calls (log w') @ [plot_into_subplot_args] \<and>
   plot_into_subplot_args = update_plot_args 1.5 40 8 0.1 \<and>
   length plot_into_subplot_args = 14"
proof -
  let ?w = "snd (ProSAILControl_setup self p w')"
  have args: "plot_into_subplot_args = update_plot_args 1.5 40 8 0.1"
    by (simp add: plot_into_subplot_args_def update_plot_args_def)
  have reads: "slider_GetValue self ''N'' ?w = (Inr 1.5, ?w)"
    "slider_GetValue self ''Chloro'' ?w = (Inr 40, ?w)"
    "slider_GetValue self ''Carot'' ?w = (Inr 8, ?w)"
    "slider_GetValue self ''EWT'' ?w = (Inr 0.1, ?w)"
    by (simp_all add: slider_GetValue_eq setup_sliders default_sliders_lookup new_floatspin_def)
  have "run_calls (log (snd (update_plot run self evnt ?w))) =
      run_calls (log ?w) @ [update_plot_args
        (val (new_floatspin (next_id w' + 7) 1.5 0 3 0.1))
        (val (new_floatspin (next_id w' + 3) 40 0 100 1))
        (val (new_floatspin (next_id w' + 5) 8 0 100 1))
        (val (new_floatspin (next_id w' + 1) 0.1 0 1 0.01))]"
    by (rule update_plot_run_calls [OF setup_sliders default_sliders_lookup])
  then have call: "run_calls (log (snd (update_plot run self evnt ?w))) =
      run_calls (log w') @ [plot_into_subplot_args]"
    by (simp add: setup_log args new_floatspin_def)
  have len: "length plot_into_subplot_args = 14"
    by (simp add: plot_into_subplot_args_def)
  show ?thesis
    using plot_into_subplot_run_calls [of run add_data_series subplot w] reads call args len
    by simp
qed

subsection \<open>The sliders that setup constructs\<close>

lemma dom_default_sliders: "dom (default_sliders i) = {''EWT'', ''Chloro'', ''Carot'', ''N''}"
  by (auto simp add: default_sliders_def split: if_splits)

text \<open>
  Claim C4. \<^verbatim>\<open>setup\<close> always completes and leaves a \<^verbatim>\<open>sliders\<close> dictionary with
  exactly the four keys \<open>EWT\<close>, \<open>Chloro\<close>, \<open>Carot\<close>, \<open>N\<close>, whose widgets have
  (default, min, max, step) equal to (0.1, 0, 1, 0.01), (40, 0, 100, 1), (8, 0, 100, 1)
  and (1.5, 0, 3, 0.1); four spin widgets were added to the panel, each after its
  label, and the change event of each of the four widgets is bound to the panel's own
  \<^verbatim>\<open>update_plot\<close>.
\<close>

theorem setup_constructs_four_sliders:
  "fst (ProSAILControl_setup self p w) = Inr () \<and>
   (\<exists>d fE fC fK fN.
      sliders (control_objs (snd (ProSAILControl_setup self p w)) self) = Some d \<and>
      dom d = {''EWT'', ''Chloro'', ''Carot'', ''N''} \<and>
      d ''EWT'' = Some fE \<and> d ''Chloro'' = Some fC \<and> d ''Carot'' = Some fK \<and> d ''N'' = Some fN \<and>
      (val fE, min_val fE, max_val fE, increment fE) = (0.1, 0, 1, 0.01) \<and>
      (val fC, min_val fC, max_val fC, increment fC) = (40, 0, 100, 1) \<and>
      (val fK, min_val fK, max_val fK, increment fK) = (8, 0, 100, 1) \<and>
      (val fN, min_val fN, max_val fN, increment fN) = (1.5, 0, 3, 0.1) \<and>
      sizer_items (control_objs (snd (ProSAILControl_setup self p w)) self) =
        sizer_items (control_objs w self) @
          [StaticText (next_id w) ''Equivalent Water Thickness (cm)'', FloatSpinItem (wx_id fE),
           StaticText (next_id w + 2) ''Chlorophyll content (ug per cm^2)'', FloatSpinItem (wx_id fC),
           StaticText (next_id w + 4) ''Carotenoid content (ug per cm^2)'', FloatSpinItem (wx_id fK),
           StaticText (next_id w + 6) ''Structure Coefficient'', FloatSpinItem (wx_id fN)] \<and>
      bindings (control_objs (snd (ProSAILControl_setup self p w)) self) =
        bindings (control_objs w self) @
          [(wx_id fE, (Update_plot, self)), (wx_id fC, (Update_plot, self)),
           (wx_id fK, (Update_plot, self)), (wx_id fN, (Update_plot, self))] \<and>
      distinct [wx_id fE, wx_id fC, wx_id fK, wx_id fN])"
proof -
  have "sliders (control_objs (snd (ProSAILControl_setup self p w)) self) =
      Some (default_sliders (next_id w))"
    by (rule setup_sliders)
  moreover have "sizer_items (control_objs (snd (ProSAILControl_setup self p w)) self) =
        sizer_items (control_objs w self) @
          [StaticText (next_id w) ''Equivalent Water Thickness (cm)'',
           FloatSpinItem (wx_id (new_floatspin (next_id w + 1) 0.1 0 1 0.01)),
           StaticText (next_id w + 2) ''Chlorophyll content (ug per cm^2)'',
           FloatSpinItem (wx_id (new_floatspin (next_id w + 3) 40 0 100 1)),
           StaticText (next_id w + 4) ''Carotenoid content (ug per cm^2)'',
           FloatSpinItem (wx_id (new_floatspin (next_id w + 5) 8 0 100 1)),
           StaticText (next_id w + 6) ''Structure Coefficient'',
           FloatSpinItem (wx_id (new_floatspin (next_id w + 7) 1.5 0 3 0.1))]"
    by (simp add: setup_result new_floatspin_def)
  moreover have "bindings (control_objs (snd (ProSAILControl_setup self p w)) self) =
        bindings (control_objs w self) @
          [(wx_id (new_floatspin (next_id w + 1) 0.1 0 1 0.01), (Update_plot, self)),
           (wx_id (new_floatspin (next_id w + 3) 40 0 100 1), (Update_plot, self)),
           (wx_id (new_floatspin (next_id w + 5) 8 0 100 1), (Update_plot, self)),
           (wx_id (new_floatspin (next_id w + 7) 1.5 0 3 0.1), (Update_plot, self))]"
    by (simp add: setup_result new_floatspin_def)
  moreover have
    "(val (new_floatspin (next_id w + 1) 0.1 0 1 0.01),
      min_val (new_floatspin (next_id w + 1) 0.1 0 1 0.01),
      max_val (new_floatspin (next_id w + 1) 0.1 0 1 0.01),
      increment (new_floatspin (next_id w + 1) 0.1 0 1 0.01)) = (0.1, 0, 1, 0.01)"
    "(val (new_floatspin (next_id w + 3) 40 0 100 1),
      min_val (new_floatspin (next_id w + 3) 40 0 100 1),
      max_val (new_floatspin (next_id w + 3) 40 0 100 1),
      increment (new_floatspin (next_id w + 3) 40 0 100 1)) = (40, 0, 100, 1)"
    "(val (new_floatspin (next_id w + 5) 8 0 100 1),
      min_val (new_floatspin (next_id w + 5) 8 0 100 1),
      max_val (new_floatspin (next_id w + 5) 8 0 100 1),
      increment (new_floatspin (next_id w + 5) 8 0 100 1)) = (8, 0, 100, 1)"
    "(val (new_floatspin (next_id w + 7) 1.5 0 3 0.1),
      min_val (new_floatspin (next_id w + 7) 1.5 0 3 0.1),
      max_val (new_floatspin (next_id w + 7) 1.5 0 3 0.1),
      increment (new_floatspin (next_id w + 7) 1.5 0 3 0.1)) = (1.5, 0, 3, 0.1)"
    by (simp_all add: new_floatspin_def)
  moreover have "distinct [wx_id (new_floatspin (next_id w + 1) 0.1 0 1 0.01),
      wx_id (new_floatspin (next_id w + 3) 40 0 100 1),
      wx_id (new_floatspin (next_id w + 5) 8 0 100 1),
      wx_id (new_floatspin (next_id w + 7) 1.5 0 3 0.1)]"
    by (simp add: new_floatspin_def)
  moreover have "fst (ProSAILControl_setup self p w) = Inr ()"
    by (simp add: setup_result)
  moreover note dom_default_sliders [of "next_id w"] default_sliders_lookup [of "next_id w"]
  ultimately show ?thesis
    by blast
qed

subsection \<open>The plugin's return value\<close>

text \<open>
  Claim C5. Whatever the subplot and whatever its \<^verbatim>\<open>add_data_series\<close> does, when
  \<^verbatim>\<open>plot_into_subplot\<close> returns normally it returns \<open>True\<close>.
\<close>

theorem plot_into_subplot_returns_True:
  assumes "plot_into_subplot run add_data_series subplot w = (Inr (b, subplot'), w')"
  shows "b = True"
  using assms
  by (auto simp add: plot_into_subplot_result split: sum.splits if_splits)

text \<open>It does return: on the empty sample subplot the result is \<open>True\<close> and the subplot holds series 0.\<close>

theorem plot_into_subplot_returns_True_witness:
  "plot_into_subplot sample_run sample_add_data_series [] empty_world =
     (Inr (True, [0]), snd (plot_into_subplot sample_run sample_add_data_series [] empty_world))"
proof -
  have "fst (plot_into_subplot sample_run sample_add_data_series [] empty_world) =
      Inr (True, [0])"
    by (simp add: plot_into_subplot_result sample_run_def plot_into_subplot_args_def
          sample_add_data_series_def empty_world_def)
  then have h: "plot_into_subplot sample_run sample_add_data_series [] empty_world =
      (Inr (True, [0]), snd (plot_into_subplot sample_run sample_add_data_series [] empty_world))"
    by (simp add: prod_eq_iff)
  from plot_into_subplot_returns_True [OF h] h show ?thesis
    by simp
qed

subsection \<open>A raising simulation\<close>

text \<open>
  Claim C6. When the simulation raises in \<^verbatim>\<open>update_plot\<close>, the handler raises the same
  exception, and all it has done is the one call, with the values the sliders held,
  whatever they were: nothing is checked before the call, nothing is tried again and
  nothing else is done afterwards.
\<close>

theorem update_plot_propagates_simulation_error:
  assumes "sliders (control_objs w self) = Some d"
    and "d ''EWT'' = Some fE" and "d ''Chloro'' = Some fC"
    and "d ''Carot'' = Some fK" and "d ''N'' = Some fN"
    and "run (update_plot_args (val fN) (val fC) (val fK) (val fE)) = Inl err"
  shows "update_plot run self evnt w =
     (Inl err, w\<lparr>log := log w @
        [RunCalled (update_plot_args (val fN) (val fC) (val fK) (val fE))]\<rparr>)"
  using assms by (simp add: update_plot_with_sliders)

text \<open>On the sample panel, with a slider set far outside its range and a simulation that raises.\<close>

theorem update_plot_propagates_simulation_error_witness:
  "sliders (control_objs (user_sets_value (Suc 0) ''Chloro'' (- 5) plotted_world) (Suc 0)) =
     Some ((default_sliders 0)(''Chloro'' \<mapsto> (new_floatspin 3 40 0 100 1)\<lparr>val := - 5\<rparr>)) \<and>
   failing_run (update_plot_args 1.5 (- 5) 8 0.1) = Inl (ExternalError ''ValueError'') \<and>
   update_plot failing_run (Suc 0) (FloatSpinEvent 3)
       (user_sets_value (Suc 0) ''Chloro'' (- 5) plotted_world) =
     (Inl (ExternalError ''ValueError''),
      (user_sets_value (Suc 0) ''Chloro'' (- 5) plotted_world)
        \<lparr>log := [RunCalled plot_into_subplot_args, RunCalled (update_plot_args 1.5 (- 5) 8 0.1)]\<rparr>)"
proof -
  let ?w = "user_sets_value (Suc 0) ''Chloro'' (- 5) plotted_world"
  let ?d = "(default_sliders 0)(''Chloro'' \<mapsto> (new_floatspin 3 40 0 100 1)\<lparr>val := - 5\<rparr>)"
  have h: "sliders (control_objs ?w (Suc 0)) = Some ?d"
    by (simp add: user_sets_value_def plotted_world_panel default_sliders_lookup)
  have k: "?d ''EWT'' = Some (new_floatspin 1 0.1 0 1 0.01)"
    "?d ''Chloro'' = Some ((new_floatspin 3 40 0 100 1)\<lparr>val := - 5\<rparr>)"
    "?d ''Carot'' = Some (new_floatspin 5 8 0 100 1)"
    "?d ''N'' = Some (new_floatspin 7 1.5 0 3 0.1)"
    by (simp_all add: default_sliders_def)
  have r: "failing_run (update_plot_args
      (val (new_floatspin 7 1.5 0 3 0.1)) (val ((new_floatspin 3 40 0 100 1)\<lparr>val := - 5\<rparr>))
      (val (new_floatspin 5 8 0 100 1)) (val (new_floatspin 1 0.1 0 1 0.01))) =
      Inl (ExternalError ''ValueError'')"
    by (simp add: failing_run_def)
  have lg: "log ?w = [RunCalled plot_into_subplot_args]"
    by (simp add: user_sets_value_def plotted_world_panel default_sliders_lookup
          plotted_world_log)
  from update_plot_propagates_simulation_error
    [where run = failing_run and evnt = "FloatSpinEvent 3", OF h k r]
  show ?thesis
    using h by (simp add: new_floatspin_def lg failing_run_def)
qed

subsection \<open>Determinism\<close>

text \<open>
  Claim C7. The simulation being a function of its arguments, two runs of the handler in
  which the four slider reads give the same results (on any two panels, in any two
  states, whatever the series held before) have the same outcome, and when they return
  they leave the same x and y data in their series. Likewise two invocations of the
  plugin, in any two states and on any two subplots, make the same simulation call, and
  when both return, the series they created hold the same data.
\<close>

theorem update_plot_deterministic:
  assumes "fst (slider_GetValue self1 ''EWT'' w1) = fst (slider_GetValue self2 ''EWT'' w2)"
    and "fst (slider_GetValue self1 ''Chloro'' w1) = fst (slider_GetValue self2 ''Chloro'' w2)"
    and "fst (slider_GetValue self1 ''Carot'' w1) = fst (slider_GetValue self2 ''Carot'' w2)"
    and "fst (slider_GetValue self1 ''N'' w1) = fst (slider_GetValue self2 ''N'' w2)"
  shows "fst (update_plot run self1 evnt1 w1) = fst (update_plot run self2 evnt2 w2) \<and>
     (fst (update_plot run self1 evnt1 w1) = Inr () \<longrightarrow>
        xdata (series_objs (snd (update_plot run self1 evnt1 w1)) (series (control_objs w1 self1))) =
        xdata (series_objs (snd (update_plot run self2 evnt2 w2)) (series (control_objs w2 self2))) \<and>
        ydata (series_objs (snd (update_plot run self1 evnt1 w1)) (series (control_objs w1 self1))) =
        ydata (series_objs (snd (update_plot run self2 evnt2 w2)) (series (control_objs w2 self2)))) \<and>
     last (run_calls (log (snd (plot_into_subplot run add1 subplot1 w1)))) =
       last (run_calls (log (snd (plot_into_subplot run add2 subplot2 w2)))) \<and>
     (fst (plot_into_subplot run add1 subplot1 w1) = Inr r1 \<and>
      fst (plot_into_subplot run add2 subplot2 w2) = Inr r2 \<longrightarrow>
        xdata (series_objs (snd (plot_into_subplot run add1 subplot1 w1)) (next_ref w1)) =
        xdata (series_objs (snd (plot_into_subplot run add2 subplot2 w2)) (next_ref w2)) \<and>
        ydata (series_objs (snd (plot_into_subplot run add1 subplot1 w1)) (next_ref w1)) =
        ydata (series_objs (snd (plot_into_subplot run add2 subplot2 w2)) (next_ref w2)))"
proof -
  have outcome: "fst (update_plot run self1 evnt1 w1) = fst (update_plot run self2 evnt2 w2)"
    by (simp add: update_plot_reads assms split: sum.splits)
  have data: "fst (update_plot run self1 evnt1 w1) = Inr () \<longrightarrow>
        xdata (series_objs (snd (update_plot run self1 evnt1 w1)) (series (control_objs w1 self1))) =
        xdata (series_objs (snd (update_plot run self2 evnt2 w2)) (series (control_objs w2 self2))) \<and>
        ydata (series_objs (snd (update_plot run self1 evnt1 w1)) (series (control_objs w1 self1))) =
        ydata (series_objs (snd (update_plot run self2 evnt2 w2)) (series (control_objs w2 self2)))"
    by (simp add: update_plot_reads assms written_def split: sum.splits)
  have calls: "last (run_calls (log (snd (plot_into_subplot run add1 subplot1 w1)))) =
       last (run_calls (log (snd (plot_into_subplot run add2 subplot2 w2))))"
    by (simp add: plot_into_subplot_run_calls)
  have created: "fst (plot_into_subplot run add1 subplot1 w1) = Inr r1 \<and>
      fst (plot_into_subplot run add2 subplot2 w2) = Inr r2 \<longrightarrow>
        xdata (series_objs (snd (plot_into_subplot run add1 subplot1 w1)) (next_ref w1)) =
        xdata (series_objs (snd (plot_into_subplot run add2 subplot2 w2)) (next_ref w2)) \<and>
        ydata (series_objs (snd (plot_into_subplot run add1 subplot1 w1)) (next_ref w1)) =
        ydata (series_objs (snd (plot_into_subplot run add2 subplot2 w2)) (next_ref w2))"
    by (simp add: plot_into_subplot_result ProSAILSeries_init_result split: sum.splits)
  from outcome data calls created show ?thesis
    by blast
qed

lemma user_sets_value_present:
  assumes "sliders (control_objs w self) = Some d" and "d name = Some fs"
  shows "user_sets_value self name v w =
     w\<lparr>control_objs := (control_objs w)(self :=
          (control_objs w self)\<lparr>sliders := Some (d(name \<mapsto> fs\<lparr>val := v\<rparr>))\<rparr>)\<rparr>"
  using assms by (simp add: user_sets_value_def)

lemma edited_world:
  "user_sets_value (Suc 0) ''N'' 2 plotted_world =
     plotted_world\<lparr>control_objs := (control_objs plotted_world)(Suc 0 :=
       (control_objs plotted_world (Suc 0))
         \<lparr>sliders := Some ((default_sliders 0)(''N'' \<mapsto> (new_floatspin 7 1.5 0 3 0.1)\<lparr>val := 2\<rparr>))\<rparr>)\<rparr>"
  by (rule user_sets_value_present) (simp_all add: plotted_world_panel default_sliders_lookup)

lemma edited_handled:
  "snd (update_plot sample_run (Suc 0) (FloatSpinEvent 7)
         (user_sets_value (Suc 0) ''N'' 2 plotted_world)) =
     written 0 [400, 401] [0.2, 0.4] (update_plot_args 2 40 8 0.1)
       (user_sets_value (Suc 0) ''N'' 2 plotted_world)"
proof -
  have "sliders (control_objs (user_sets_value (Suc 0) ''N'' 2 plotted_world) (Suc 0)) =
      Some ((default_sliders 0)(''N'' \<mapsto> (new_floatspin 7 1.5 0 3 0.1)\<lparr>val := 2\<rparr>))"
    and "series (control_objs (user_sets_value (Suc 0) ''N'' 2 plotted_world) (Suc 0)) = 0"
    by (simp_all add: edited_world plotted_world_panel)
  then show ?thesis
    by (simp add: update_plot_reads slider_GetValue_eq default_sliders_lookup
          new_floatspin_def update_plot_args_def sample_run_def)
qed

lemma stale_world_eq:
  "stale_world =
     (written 0 [400, 401] [0.2, 0.4] (update_plot_args 2 40 8 0.1)
        (user_sets_value (Suc 0) ''N'' 2 plotted_world))
     \<lparr>control_objs := (control_objs plotted_world)(Suc 0 :=
        (control_objs plotted_world (Suc 0))
          \<lparr>sliders := Some ((default_sliders 0)(''N'' \<mapsto> new_floatspin 7 1.5 0 3 0.1))\<rparr>)\<rparr>"
proof -
  let ?w = "written 0 [400, 401] [0.2, 0.4] (update_plot_args 2 40 8 0.1)
        (user_sets_value (Suc 0) ''N'' 2 plotted_world)"
  have c: "control_objs ?w = (control_objs plotted_world)(Suc 0 :=
       (control_objs plotted_world (Suc 0))
         \<lparr>sliders := Some ((default_sliders 0)(''N'' \<mapsto> (new_floatspin 7 1.5 0 3 0.1)\<lparr>val := 2\<rparr>))\<rparr>)"
    by (simp add: written_def edited_world)
  have "user_sets_value (Suc 0) ''N'' 1.5 ?w =
     ?w\<lparr>control_objs := (control_objs ?w)(Suc 0 :=
          (control_objs ?w (Suc 0))\<lparr>sliders := Some
            (((default_sliders 0)(''N'' \<mapsto> (new_floatspin 7 1.5 0 3 0.1)\<lparr>val := 2\<rparr>))
               (''N'' \<mapsto> (new_floatspin 7 1.5 0 3 0.1)\<lparr>val := 2, val := 1.5\<rparr>))\<rparr>)\<rparr>"
    by (rule user_sets_value_present) (insert c, simp_all)
  then show ?thesis
    using c by (simp add: stale_world_def edited_handled new_floatspin_def)
qed

lemma stale_world_panel:
  "sliders (control_objs stale_world (Suc 0)) =
     Some ((default_sliders 0)(''N'' \<mapsto> new_floatspin 7 1.5 0 3 0.1))"
  "series (control_objs stale_world (Suc 0)) = 0"
  by (simp_all add: stale_world_eq plotted_world_panel)

lemma stale_world_series:
  "xdata (series_objs stale_world 0) = [400, 401]"
  "ydata (series_objs stale_world 0) = [0.2, 0.4]"
  by (simp_all add: stale_world_eq written_def)

text \<open>
  The handler on the sample state and on the state whose series holds stale data: the
  sliders read the same, and both runs leave the data computed for the defaults.
\<close>

theorem update_plot_deterministic_witness:
  "fst (slider_GetValue (Suc 0) ''EWT'' plotted_world) = fst (slider_GetValue (Suc 0) ''EWT'' stale_world) \<and>
   fst (slider_GetValue (Suc 0) ''Chloro'' plotted_world) = fst (slider_GetValue (Suc 0) ''Chloro'' stale_world) \<and>
   fst (slider_GetValue (Suc 0) ''Carot'' plotted_world) = fst (slider_GetValue (Suc 0) ''Carot'' stale_world) \<and>
   fst (slider_GetValue (Suc 0) ''N'' plotted_world) = fst (slider_GetValue (Suc 0) ''N'' stale_world) \<and>
   ydata (series_objs plotted_world 0) \<noteq> ydata (series_objs stale_world 0) \<and>
   fst (update_plot sample_run (Suc 0) (FloatSpinEvent 1) plotted_world) = Inr () \<and>
   fst (update_plot sample_run (Suc 0) (FloatSpinEvent 7) stale_world) = Inr () \<and>
   ydata (series_objs (snd (update_plot sample_run (Suc 0) (FloatSpinEvent 1) plotted_world)) 0) =
     [0.15, 0.3] \<and>
   ydata (series_objs (snd (update_plot sample_run (Suc 0) (FloatSpinEvent 7) stale_world)) 0) =
     [0.15, 0.3]"
proof -
  have reads: "fst (slider_GetValue (Suc 0) ''EWT'' plotted_world) = fst (slider_GetValue (Suc 0) ''EWT'' stale_world)"
    "fst (slider_GetValue (Suc 0) ''Chloro'' plotted_world) = fst (slider_GetValue (Suc 0) ''Chloro'' stale_world)"
    "fst (slider_GetValue (Suc 0) ''Carot'' plotted_world) = fst (slider_GetValue (Suc 0) ''Carot'' stale_world)"
    "fst (slider_GetValue (Suc 0) ''N'' plotted_world) = fst (slider_GetValue (Suc 0) ''N'' stale_world)"
    by (simp_all add: slider_GetValue_eq plotted_world_panel stale_world_panel
          default_sliders_lookup new_floatspin_def)
  have before: "ydata (series_objs plotted_world 0) \<noteq> ydata (series_objs stale_world 0)"
    by (simp add: plotted_world_series stale_world_series)
  have first: "fst (update_plot sample_run (Suc 0) (FloatSpinEvent 1) plotted_world) = Inr ()"
    "ydata (series_objs (snd (update_plot sample_run (Suc 0) (FloatSpinEvent 1) plotted_world)) 0) =
       [0.15, 0.3]"
    by (simp_all add: update_plot_reads slider_GetValue_eq plotted_world_panel
          default_sliders_lookup new_floatspin_def update_plot_args_def sample_run_def written_def)
  have ser: "series (control_objs plotted_world (Suc 0)) = 0"
    "series (control_objs stale_world (Suc 0)) = 0"
    by (simp_all add: plotted_world_panel stale_world_panel)
  from update_plot_deterministic
    [where run = sample_run and ?evnt1.0 = "FloatSpinEvent 1" and ?evnt2.0 = "FloatSpinEvent 7"
       and ?add1.0 = sample_add_data_series and ?add2.0 = sample_add_data_series
       and ?subplot1.0 = "[]" and ?subplot2.0 = "[]" and ?r1.0 = "(True, [])"
       and ?r2.0 = "(True, [])", OF reads]
  have "fst (update_plot sample_run (Suc 0) (FloatSpinEvent 1) plotted_world) =
      fst (update_plot sample_run (Suc 0) (FloatSpinEvent 7) stale_world)"
    and "ydata (series_objs (snd (update_plot sample_run (Suc 0) (FloatSpinEvent 1) plotted_world)) 0) =
      ydata (series_objs (snd (update_plot sample_run (Suc 0) (FloatSpinEvent 7) stale_world)) 0)"
    using first(1) by (simp_all add: ser)
  with reads before first show ?thesis
    by simp
qed

subsection \<open>Registration\<close>

lemma add_slider_registry:
  "registry (snd (add_slider self name caption defaultval minval maxval inc h w)) = registry w"
  by (cases "sliders (control_objs w self)")
     (simp_all add: add_slider_with_sliders add_slider_without_sliders)

lemma update_plot_registry: "registry (snd (update_plot run self evnt w)) = registry w"
  by (simp add: update_plot_reads written_def split: sum.splits)

lemma plot_into_subplot_registry:
  "registry (snd (plot_into_subplot run add_data_series subplot w)) = registry w"
  by (simp add: plot_into_subplot_result ProSAILSeries_init_result split: sum.splits)

lemma import_prosail_first:
  assumes "''prosail'' \<notin> set (sys_modules w)"
  shows "snd (import_prosail w) =
     w\<lparr>next_ref := Suc (next_ref w), registry := registry w @ [prosail_plugin (next_ref w)],
       sys_modules := ''prosail'' # sys_modules w\<rparr>"
  using assms by (simp add: import_prosail_def module_body_result)

lemma import_repeatedly_loaded:
  assumes "''prosail'' \<in> set (sys_modules w)"
  shows "import_repeatedly n w = w"
  using assms by (induction n) (simp_all add: import_prosail_def)

text \<open>The body itself has no guard: were it evaluated twice, it would register twice.\<close>

lemma module_body_twice:
  "registry (snd (module_body (snd (module_body w)))) =
     registry w @ [prosail_plugin (next_ref w), prosail_plugin (Suc (next_ref w))]"
  by (simp add: module_body_result)

text \<open>
  Claim C8. Evaluating the module body registers exactly one plugin, the
  \<^verbatim>\<open>ProsailPlugin\<close> object constructed for the purpose at a reference not handed out
  before, and changes nothing else of the registry; no method of the module touches the
  registry; so, \<^verbatim>\<open>import\<close> running the body only when the module is not yet loaded,
  any number of imports of the module register the plugin once.
\<close>

theorem registration_happens_once:
  "module_body w =
     (Inr (), w\<lparr>next_ref := Suc (next_ref w),
                registry := registry w @ [prosail_plugin (next_ref w)]\<rparr>) \<and>
   plugin_name (prosail_plugin (next_ref w)) = ''PyProSAIL'' \<and>
   plugin_id (prosail_plugin (next_ref w)) = next_ref w \<and>
   registry (snd (ProsailPlugin_init w)) = registry w \<and>
   registry (snd (ProSAILSeries_init name xs ys w)) = registry w \<and>
   registry (snd (ProSAILControl_init s w)) = registry w \<and>
   registry (snd (add_slider self name caption defaultval minval maxval inc h w)) = registry w \<and>
   registry (snd (ProSAILControl_setup self p w)) = registry w \<and>
   registry (snd (update_plot run self evnt w)) = registry w \<and>
   registry (snd (plot_into_subplot run add_data_series subplot w)) = registry w \<and>
   (''prosail'' \<notin> set (sys_modules w) \<longrightarrow>
      registry (import_repeatedly (Suc n) w) = registry w @ [prosail_plugin (next_ref w)])"
proof -
  have imported: "registry (import_repeatedly (Suc n) w) = registry w @ [prosail_plugin (next_ref w)]"
    if fresh: "''prosail'' \<notin> set (sys_modules w)"
  proof -
    have "''prosail'' \<in> set (sys_modules (snd (import_prosail w)))"
      by (simp add: import_prosail_first [OF fresh])
    then have "import_repeatedly n (snd (import_prosail w)) = snd (import_prosail w)"
      by (rule import_repeatedly_loaded)
    then show ?thesis
      by (simp add: import_prosail_first [OF fresh])
  qed
  have others: "registry (snd (ProsailPlugin_init w)) = registry w"
    "registry (snd (ProSAILSeries_init name xs ys w)) = registry w"
    "registry (snd (ProSAILControl_init s w)) = registry w"
    "registry (snd (ProSAILControl_setup self p w)) = registry w"
    by (simp_all add: ProsailPlugin_init_def ProSAILSeries_init_result
          ProSAILControl_init_result setup_result)
  have plugin: "plugin_name (prosail_plugin (next_ref w)) = ''PyProSAIL''"
    "plugin_id (prosail_plugin (next_ref w)) = next_ref w"
    by (simp_all add: prosail_plugin_def)
  from imported others plugin show ?thesis
    by (simp add: module_body_result add_slider_registry update_plot_registry
          plot_into_subplot_registry)
qed

text \<open>Three imports into a process that has loaded nothing: one registered plugin.\<close>

theorem registration_happens_once_witness:
  "''prosail'' \<notin> set (sys_modules empty_world) \<and>
   registry (import_repeatedly (Suc 2) empty_world) = [prosail_plugin 0] \<and>
   length (registry (import_repeatedly (Suc 2) empty_world)) = 1"
proof -
  have fresh: "''prosail'' \<notin> set (sys_modules empty_world)"
    by (simp add: empty_world_def)
  have start: "registry empty_world = []" "next_ref empty_world = 0"
    by (simp_all add: empty_world_def)
  have "registry (import_repeatedly (Suc 2) empty_world) =
      registry empty_world @ [prosail_plugin (next_ref empty_world)]"
    by (rule registration_happens_once [where w = empty_world and n = 2,
          THEN conjunct2, THEN conjunct2, THEN conjunct2, THEN conjunct2, THEN conjunct2,
          THEN conjunct2, THEN conjunct2, THEN conjunct2, THEN conjunct2, THEN conjunct2,
          rule_format, OF fresh])
  with fresh start show ?thesis
    by simp
qed

subsection \<open>Nothing is written when the simulation raises\<close>

text \<open>
  Claim C9. The slider reads and the simulation call come before any change to the
  series: when the simulation raises, the handler raises, every series object is exactly
  as it was before the event, and the log has grown by the simulation call alone, so
  neither \<^verbatim>\<open>set_xy_data\<close> nor \<^verbatim>\<open>update\<close> was reached.
\<close>

theorem update_plot_atomic_on_simulation_error:
  assumes "sliders (control_objs w self) = Some d"
    and "d ''EWT'' = Some fE" and "d ''Chloro'' = Some fC"
    and "d ''Carot'' = Some fK" and "d ''N'' = Some fN"
    and "run (update_plot_args (val fN) (val fC) (val fK) (val fE)) = Inl err"
  shows "fst (update_plot run self evnt w) = Inl err \<and>
     series_objs (snd (update_plot run self evnt w)) = series_objs w \<and>
     xdata (series_objs (snd (update_plot run self evnt w)) (series (control_objs w self))) =
       xdata (series_objs w (series (control_objs w self))) \<and>
     ydata (series_objs (snd (update_plot run self evnt w)) (series (control_objs w self))) =
       ydata (series_objs w (series (control_objs w self))) \<and>
     log (snd (update_plot run self evnt w)) =
       log w @ [RunCalled (update_plot_args (val fN) (val fC) (val fK) (val fE))]"
  using assms by (simp add: update_plot_with_sliders)

text \<open>
  On the state whose series holds the data computed for \<open>N = 2\<close>, with a simulation that
  raises: the series still holds that data.
\<close>

theorem update_plot_atomic_on_simulation_error_witness:
  "sliders (control_objs stale_world (Suc 0)) =
     Some ((default_sliders 0)(''N'' \<mapsto> new_floatspin 7 1.5 0 3 0.1)) \<and>
   failing_run (update_plot_args 1.5 40 8 0.1) = Inl (ExternalError ''ValueError'') \<and>
   fst (update_plot failing_run (Suc 0) (FloatSpinEvent 7) stale_world) =
     Inl (ExternalError ''ValueError'') \<and>
   xdata (series_objs (snd (update_plot failing_run (Suc 0) (FloatSpinEvent 7) stale_world)) 0) =
     [400, 401] \<and>
   ydata (series_objs (snd (update_plot failing_run (Suc 0) (FloatSpinEvent 7) stale_world)) 0) =
     [0.2, 0.4]"
proof -
  let ?d = "(default_sliders 0)(''N'' \<mapsto> new_floatspin 7 1.5 0 3 0.1)"
  have h: "sliders (control_objs stale_world (Suc 0)) = Some ?d"
    by (rule stale_world_panel)
  have k: "?d ''EWT'' = Some (new_floatspin 1 0.1 0 1 0.01)"
    "?d ''Chloro'' = Some (new_floatspin 3 40 0 100 1)"
    "?d ''Carot'' = Some (new_floatspin 5 8 0 100 1)"
    "?d ''N'' = Some (new_floatspin 7 1.5 0 3 0.1)"
    by (simp_all add: default_sliders_def)
  have r: "failing_run (update_plot_args
      (val (new_floatspin 7 1.5 0 3 0.1)) (val (new_floatspin 3 40 0 100 1))
      (val (new_floatspin 5 8 0 100 1)) (val (new_floatspin 1 0.1 0 1 0.01))) =
      Inl (ExternalError ''ValueError'')"
    by (simp add: failing_run_def)
  from update_plot_atomic_on_simulation_error
    [where run = failing_run and evnt = "FloatSpinEvent 7", OF h k r]
  show ?thesis
    using h by (simp add: stale_world_panel stale_world_series failing_run_def)
qed

subsection \<open>The sliders dictionary exists once setup has run\<close>












text \<open>
  The state the plugin leaves does not depend on the subplot or on what the subplot does
  with the series, so the states after setup are closed under invocations of the plugin
  on subplots of every kind.
\<close>

lemma plot_into_subplot_world:
  "snd (plot_into_subplot run add_data_series subplot w) =
   snd (plot_into_subplot run add_data_series' subplot' w)"
  by (simp add: plot_into_subplot_result split: sum.splits)

lemma after_setup_plugin_invoked:
  assumes "after_setup run self w"
  shows "after_setup run self (snd (plot_into_subplot run add_data_series subplot w))"
proof -
  have "after_setup run self (snd (plot_into_subplot run (\<lambda>sp s. Inr sp) ([] :: ref list) w))"
    using assms by (rule after_setup.plugin_invoked)
  moreover have "snd (plot_into_subplot run add_data_series subplot w) =
      snd (plot_into_subplot run (\<lambda>sp s. Inr sp) ([] :: ref list) w)"
    by (rule plot_into_subplot_world)
  ultimately show ?thesis
    by (simp only:)
qed








end
